theory Spec2Isabelle
  imports Main "HOL-Library.Sublist"
begin

section \<open>JavaScript strings\<close>

text \<open>
  A string is a list of characters, each standing for a code unit below 256 (the
  source's literals are ASCII).  The three string operations of the source are \<^verbatim>\<open>indexOf\<close>, \<^verbatim>\<open>replace\<close> with a string
  pattern (first occurrence only) and \<^verbatim>\<open>replace(/\r+/g, "")\<close>.
\<close>

fun starts_at :: "string \<Rightarrow> string \<Rightarrow> bool" where
  "starts_at [] s = True"
| "starts_at (p # ps) [] = False"
| "starts_at (p # ps) (c # cs) = (p = c \<and> starts_at ps cs)"

text \<open>\<^verbatim>\<open>s.indexOf(pat)\<close>: the first position at which \<open>pat\<close> occurs in \<open>s\<close>, or \<open>-1\<close>.\<close>

fun indexOf :: "string \<Rightarrow> string \<Rightarrow> int" where
  "indexOf [] pat = (if pat = [] then 0 else - 1)"
| "indexOf (c # cs) pat =
     (if starts_at pat (c # cs) then 0
      else (let i = indexOf cs pat in if i < 0 then - 1 else i + 1))"

text \<open>\<^verbatim>\<open>s.replace(pat, rep)\<close> with a string pattern: only the first occurrence is replaced.\<close>

fun replace_first :: "string \<Rightarrow> string \<Rightarrow> string \<Rightarrow> string" where
  "replace_first [] pat rep = (if pat = [] then rep else [])"
| "replace_first (c # cs) pat rep =
     (if starts_at pat (c # cs) then rep @ drop (length pat) (c # cs)
      else c # replace_first cs pat rep)"

definition CR :: char where
  "CR = CHR 0x0D"

text \<open>
  \<^verbatim>\<open>content.replace(/\r+/g, "")\<close>: every maximal run of carriage returns is replaced by
  the empty string, scanning from the left.
\<close>

function replace_cr_runs :: "string \<Rightarrow> string" where
  "replace_cr_runs [] = []"
| "replace_cr_runs (c # cs) =
     (if c = CR then replace_cr_runs (dropWhile (\<lambda>d. d = CR) cs)
      else c # replace_cr_runs cs)"
  by pat_completeness auto
termination
proof (relation "measure length")
  fix c :: char and cs :: string
  have "length (dropWhile (\<lambda>d. d = CR) cs) \<le> length cs"
    by (rule length_dropWhile_le)
  then show "(dropWhile (\<lambda>d. d = CR) cs, c # cs) \<in> measure length"
    by simp
qed simp_all

section \<open>JavaScript values\<close>

text \<open>
  The values the three scripts pass around.  Numbers are integers here: ports, statuses
  and timeouts are, and no claim needs a fraction.  An object is its list of own
  enumerable properties; a well-formed object has no key twice.
\<close>

datatype jsval =
  JUndefined
| JNull
| JBool bool
| JNum int
| JStr string
| JObj "(string \<times> jsval) list"

text \<open>The conversion to a boolean that \<^verbatim>\<open>if\<close>, \<^verbatim>\<open>!\<close> and \<^verbatim>\<open>||\<close> apply.\<close>

fun truthy :: "jsval \<Rightarrow> bool" where
  "truthy JUndefined = False"
| "truthy JNull = False"
| "truthy (JBool b) = b"
| "truthy (JNum n) = (n \<noteq> 0)"
| "truthy (JStr s) = (s \<noteq> [])"
| "truthy (JObj kvs) = True"

definition js_or :: "jsval \<Rightarrow> jsval \<Rightarrow> jsval" where
  "js_or a b = (if truthy a then a else b)"

definition digit_char :: "nat \<Rightarrow> char" where
  "digit_char d = ''0123456789'' ! d"

fun decimal :: "nat \<Rightarrow> string" where
  "decimal n = (if n < 10 then [digit_char n] else decimal (n div 10) @ [digit_char (n mod 10)])"

declare decimal.simps [simp del]

definition number_toString :: "int \<Rightarrow> string" where
  "number_toString i = (if i < 0 then ''-'' @ decimal (nat (- i)) else decimal (nat i))"

text \<open>\<^verbatim>\<open>String(v)\<close>, the conversion a template literal and \<^verbatim>\<open>parseInt\<close> apply.\<close>

fun toString :: "jsval \<Rightarrow> string" where
  "toString JUndefined = ''undefined''"
| "toString JNull = ''null''"
| "toString (JBool b) = (if b then ''true'' else ''false'')"
| "toString (JNum i) = number_toString i"
| "toString (JStr s) = s"
| "toString (JObj kvs) = ''[object Object]''"

definition is_whitespace :: "char \<Rightarrow> bool" where
  "is_whitespace c =
     (c \<in> set [CHR 0x09, CHR 0x0A, CHR 0x0B, CHR 0x0C, CHR 0x0D, CHR '' '', CHR 0xA0])"

definition is_sign :: "char \<Rightarrow> bool" where
  "is_sign c = (c = CHR ''+'' \<or> c = CHR ''-'')"

definition is_digit :: "char \<Rightarrow> bool" where
  "is_digit c = (c \<in> set ''0123456789'')"

definition digit_value :: "char \<Rightarrow> nat" where
  "digit_value c = of_char c - 48"

definition digits_value :: "string \<Rightarrow> nat" where
  "digits_value ds = foldl (\<lambda>acc c. 10 * acc + digit_value c) 0 ds"

datatype js_number = NaN | Finite int

text \<open>
  The built-in \<^verbatim>\<open>parseInt(val, 10)\<close>, after the language standard: convert to a string,
  skip leading white space, take one optional sign, then the longest run of decimal
  digits; no digit gives \<^verbatim>\<open>NaN\<close>.  What follows the digits is ignored.
\<close>

definition parseInt10 :: "jsval \<Rightarrow> js_number" where
  "parseInt10 val =
     (let S = dropWhile is_whitespace (toString val);
          sign = (if S \<noteq> [] \<and> hd S = CHR ''-'' then - 1 else 1 :: int);
          S1 = (if S \<noteq> [] \<and> is_sign (hd S) then tl S else S);
          Z = takeWhile is_digit S1
      in if Z = [] then NaN else Finite (sign * int (digits_value Z)))"

section \<open>The HTTP bootstrap script\<close>

definition normalizePort :: "jsval \<Rightarrow> jsval" where
  "normalizePort val =
     (case parseInt10 val of
        NaN \<Rightarrow> val
      | Finite port \<Rightarrow> if port \<ge> 0 then JNum port else JBool False)"

text \<open>
  \<^verbatim>\<open>var port = normalizePort(process.env.PORT || pkg.config.port || 3000)\<close>, with the
  environment variable and the package's setting as arguments.
\<close>

definition listening_port :: "jsval \<Rightarrow> jsval \<Rightarrow> jsval" where
  "listening_port env_PORT config_port = normalizePort (js_or (js_or env_PORT config_port) (JNum 3000))"

text \<open>
  The replacement of the global \<^verbatim>\<open>fetch\<close>; \<open>fetch\<close> stands for the function of the
  \<^verbatim>\<open>node-fetch\<close> package that it delegates to.
\<close>

definition global_fetch :: "jsval \<Rightarrow> (string \<Rightarrow> 'o \<Rightarrow> 'r) \<Rightarrow> string \<Rightarrow> 'o \<Rightarrow> 'r" where
  "global_fetch port fetch url options =
     (let url' = (if indexOf url ''/'' = 0 then (''http://localhost:'' @ toString port) @ url else url)
      in fetch url' options)"

section \<open>The development bundler adapter\<close>

text \<open>A thrown value or the reason of a rejected promise.\<close>

datatype error = TypeError | Error string







section \<open>Objects\<close>

text \<open>Assignment to a property: an existing key keeps its place, a new key goes last.\<close>

fun obj_set :: "string \<Rightarrow> 'a \<Rightarrow> (string \<times> 'a) list \<Rightarrow> (string \<times> 'a) list" where
  "obj_set k v [] = [(k, v)]"
| "obj_set k v ((k', v') # kvs) =
     (if k = k' then (k, v) # kvs else (k', v') # obj_set k v kvs)"

text \<open>
  The own enumerable properties of a value, as the object spread and \<^verbatim>\<open>Object.keys\<close>
  see them: those of an object, the indexed characters of a string, none otherwise.
\<close>

fun own_enumerable :: "jsval \<Rightarrow> (string \<times> jsval) list" where
  "own_enumerable (JObj kvs) = kvs"
| "own_enumerable (JStr s) = map (\<lambda>i. (decimal i, JStr [s ! i])) [0..<length s]"
| "own_enumerable v = []"

text \<open>\<^verbatim>\<open>{...obj, ...v}\<close>: the properties of \<open>v\<close> are assigned onto \<open>obj\<close>.\<close>

definition spread :: "jsval \<Rightarrow> (string \<times> jsval) list \<Rightarrow> (string \<times> jsval) list" where
  "spread v obj = fold (\<lambda>(k, x). obj_set k x) (own_enumerable v) obj"

text \<open>
  Reading a property.  It throws on \<^verbatim>\<open>undefined\<close> and \<^verbatim>\<open>null\<close>.  Properties inherited
  from the built-in prototypes are left out; the one name the controller reads this way,
  \<^verbatim>\<open>api\<close>, is not among them.
\<close>

fun get_prop :: "jsval \<Rightarrow> string \<Rightarrow> error + jsval" where
  "get_prop JUndefined k = Inl TypeError"
| "get_prop JNull k = Inl TypeError"
| "get_prop (JObj kvs) k = Inr (case map_of kvs k of Some v \<Rightarrow> v | None \<Rightarrow> JUndefined)"
| "get_prop (JStr s) k =
     Inr (if k = ''length'' then JNum (int (length s))
          else (case map_of (own_enumerable (JStr s)) k of Some v \<Rightarrow> v | None \<Rightarrow> JUndefined))"
| "get_prop v k = Inr JUndefined"

fun set_prop :: "jsval \<Rightarrow> string \<Rightarrow> jsval \<Rightarrow> jsval" where
  "set_prop (JObj kvs) k v = JObj (obj_set k v kvs)"
| "set_prop u k v = u"

text \<open>
  \<^verbatim>\<open>Object.keys\<close> of a value that is an object or absent (\<open>None\<close> stands for
  \<^verbatim>\<open>undefined\<close> and \<^verbatim>\<open>null\<close>, on which it throws).
\<close>

definition Object_keys :: "(string \<times> 'a) list option \<Rightarrow> error + string list" where
  "Object_keys obj = (case obj of None \<Rightarrow> Inl TypeError | Some kvs \<Rightarrow> Inr (map fst kvs))"

section \<open>The controller's context and its URL helpers\<close>

text \<open>
  The per-request context.  Its \<^verbatim>\<open>preload\<close> object is the one mutable part and is
  shared between controllers, so it lives in the world state below, not in this record.
\<close>

record "context" =
  isClient :: bool
  isServer :: bool
  cookie :: string
  locationOrigin :: string
  basename :: string
  publicPath :: string
  restfulApi :: string

text \<open>
  \<^verbatim>\<open>_.isAbsoluteUrl\<close> belongs to the module \<^verbatim>\<open>./util\<close>, which lies outside the files
  verified here; every function that calls it takes it as the parameter \<open>isAbsoluteUrl\<close>.
\<close>

definition prependBasename :: "(string \<Rightarrow> bool) \<Rightarrow> context \<Rightarrow> string \<Rightarrow> string" where
  "prependBasename isAbsoluteUrl ctx pathname =
     (if isAbsoluteUrl pathname then pathname
      else locationOrigin ctx @ basename ctx @ pathname)"

definition prependPublicPath :: "(string \<Rightarrow> bool) \<Rightarrow> context \<Rightarrow> string \<Rightarrow> string" where
  "prependPublicPath isAbsoluteUrl ctx pathname =
     (if isAbsoluteUrl pathname then pathname
      else locationOrigin ctx @ publicPath ctx @ pathname)"

definition prependRestfulBasename :: "(string \<Rightarrow> bool) \<Rightarrow> context \<Rightarrow> string \<Rightarrow> string" where
  "prependRestfulBasename isAbsoluteUrl ctx url =
     (if isAbsoluteUrl url then
        (if isClient ctx \<and> indexOf url ''http:'' = 0
         then replace_first url ''http:'' ''''
         else url)
      else if indexOf url ''/mock/'' = 0 then locationOrigin ctx @ basename ctx @ url
      else restfulApi ctx @ url)"

section \<open>The controller's fetch\<close>

record request =
  req_method :: string
  req_credentials :: string
  req_headers :: "(string \<times> string) list"

record response =
  ok :: bool
  status :: nat
  statusText :: string
  body :: string

text \<open>
  How a call of the global \<^verbatim>\<open>fetch\<close> ends: after \<open>elapsed\<close> milliseconds its promise
  is rejected or fulfilled with a response.
\<close>

record answer =
  elapsed :: nat
  outcome :: "error + response"

text \<open>
  The options of \<^verbatim>\<open>Controller.fetch\<close>: \<open>opt_json\<close> is false exactly when
  \<^verbatim>\<open>options.json === false\<close>, \<open>opt_timeout\<close> is set exactly when \<^verbatim>\<open>options.timeout\<close> is
  a number.
\<close>

record fetch_options =
  opt_method :: "string option"
  opt_credentials :: "string option"
  opt_headers :: "(string \<times> string) list"
  opt_json :: bool
  opt_timeout :: "nat option"

type_synonym reducer = string

text \<open>
  What the class takes from outside its file: \<^verbatim>\<open>_.isAbsoluteUrl\<close> of \<^verbatim>\<open>./util\<close>, the
  global \<^verbatim>\<open>fetch\<close>, the parser behind \<^verbatim>\<open>response.json()\<close>, and the actions of
  \<^verbatim>\<open>./actions\<close>.
\<close>

record externals =
  ext_isAbsoluteUrl :: "string \<Rightarrow> bool"
  ext_fetch :: "string \<Rightarrow> request \<Rightarrow> answer"
  ext_json :: "string \<Rightarrow> error + jsval"
  ext_shareActions :: "(string \<times> reducer) list"

text \<open>
  The state outside the controller instance: the global variable
  \<^verbatim>\<open>__INITIAL_STATE__\<close>, the object \<^verbatim>\<open>context.preload\<close> (its values are fetched texts),
  and two logs kept for the proofs: the URLs handed to the global \<^verbatim>\<open>fetch\<close> and the
  names of the hooks and methods that \<^verbatim>\<open>init\<close> called, both in order.
\<close>

record world =
  INITIAL_STATE :: jsval
  preload_cache :: "string \<rightharpoonup> string"
  requests :: "string list"
  calls :: "string list"

datatype fetched = Json jsval | Raw response

definition final_options :: "context \<Rightarrow> fetch_options \<Rightarrow> request" where
  "final_options ctx options =
     (let headers = fold (\<lambda>(k, v). obj_set k v) (opt_headers options)
                      [(''Content-Type'', ''application/json''),
                       (''Access-Control-Allow-Origin'', ''*'')];
          headers' = (if isServer ctx then obj_set ''Cookie'' (cookie ctx) headers else headers)
      in \<lparr>req_method = (case opt_method options of None \<Rightarrow> ''GET'' | Some m \<Rightarrow> m),
          req_credentials = (case opt_credentials options of None \<Rightarrow> ''include'' | Some c \<Rightarrow> c),
          req_headers = headers'\<rparr>)"

text \<open>
  \<^verbatim>\<open>Controller.fetch\<close>.  The race with the timer is decided by the time the answer
  takes: the timer wins when it is due before the answer.
\<close>

definition fetch ::
  "externals \<Rightarrow> context \<Rightarrow> string \<Rightarrow> fetch_options \<Rightarrow> world \<Rightarrow> (error + fetched) \<times> world" where
  "fetch E ctx url options w =
     (let finalUrl = prependRestfulBasename (ext_isAbsoluteUrl E) ctx url;
          finalOptions = final_options ctx options;
          reply = ext_fetch E finalUrl finalOptions;
          w' = w\<lparr>requests := requests w @ [finalUrl]\<rparr>;
          fetchData =
            (if opt_json options then
               (case outcome reply of
                  Inl e \<Rightarrow> Inl e
                | Inr response \<Rightarrow>
                    if \<not> ok response \<or> status response \<noteq> 200
                    then Inl (Error (statusText response))
                    else (case ext_json E (body response) of
                            Inl e \<Rightarrow> Inl e
                          | Inr v \<Rightarrow> Inr (Json v)))
             else (case outcome reply of Inl e \<Rightarrow> Inl e | Inr response \<Rightarrow> Inr (Raw response)))
      in case opt_timeout options of
           None \<Rightarrow> (fetchData, w')
         | Some t \<Rightarrow>
             if t < elapsed reply
             then (Inl (Error (''Timeout Error:'' @ decimal t @ ''ms'')), w')
             else (fetchData, w'))"

text \<open>
  Modelled from the spec: \<^verbatim>\<open>_.toText\<close> of \<^verbatim>\<open>./util\<close> is missing; the preload contract
  says the resource is fetched as text, not JSON, so it is the text of the response body.
\<close>

definition toText :: "fetched \<Rightarrow> error + string" where
  "toText r = (case r of Raw response \<Rightarrow> Inr (body response) | Json v \<Rightarrow> Inl TypeError)"

section \<open>The controller\<close>

record location =
  raw :: string
  pattern :: string
  params :: "(string \<times> jsval) list"

definition location_value :: "location \<Rightarrow> jsval" where
  "location_value l =
     JObj [(''raw'', JStr (raw l)), (''pattern'', JStr (pattern l)), (''params'', JObj (params l))]"

text \<open>The store of the \<^verbatim>\<open>relite\<close> library, as far as the controller looks into it.\<close>

record store =
  store_actions :: "(string \<times> reducer) list"
  store_state :: jsval

definition createStore :: "(string \<times> reducer) list \<Rightarrow> jsval \<Rightarrow> store" where
  "createStore finalActions finalInitialState =
     \<lparr>store_actions = finalActions, store_state = finalInitialState\<rparr>"

text \<open>
  A member of an instance is a function, known by its name, or some other value.  A
  handler is a function bound to an instance, known by the instance's identity.
\<close>

datatype member = Function string | Data

datatype handler = Bound nat string

datatype subscription = StoreSubscribe | HistoryListenBefore | HistoryListenBeforeUnload

text \<open>What \<^verbatim>\<open>render\<close> returns: the key and props of the element tree.\<close>

record view =
  view_key :: string
  view_state :: jsval
  view_handlers :: "string \<rightharpoonup> handler"
  view_actions :: "(string \<times> reducer) list"
  view_preload :: "string \<rightharpoonup> string"

text \<open>
  A controller instance.  \<open>self\<close> is its identity.  \<open>own\<close> lists its own enumerable
  properties, which is what \<^verbatim>\<open>Object.keys(this)\<close> goes through; \<open>proto\<close> lists the
  members it inherits from its class and the classes above (methods written in a class
  body live there).  The hooks a subclass may define are fields: a hook that is \<open>None\<close>
  is not defined, one that is defined gives the settled result of its promise, computed
  from what it is given; a hook leaves the world state alone.  \<open>preload\<close> is the
  specification of resources, an object of names and URLs, when there is one.
\<close>

record controller =
  self :: nat
  location :: location
  ctx :: "context"
  name :: "string option"
  initialState :: jsval
  actions :: "(string \<times> reducer) list"
  getInitialState :: "(jsval \<Rightarrow> error + jsval) option"
  shouldComponentCreate :: "(store \<Rightarrow> error + jsval) option"
  componentWillCreate :: "(store \<Rightarrow> error + store) option"
  pageWillLeave :: bool
  windowWillUnload :: bool
  preload :: "(string \<times> string) list option"
  own :: "(string \<times> member) list"
  proto :: "(string \<times> member) list"
  handlers :: "string \<rightharpoonup> handler"
  store :: "store option"
  logger :: "string option"
  unsubscribeList :: "subscription list option"

text \<open>
  The constructor, with the class fields that the class body adds to every instance
  before the constructor's own assignments.
\<close>

definition Controller :: "nat \<Rightarrow> location \<Rightarrow> context \<Rightarrow> controller" where
  "Controller i loc context =
     \<lparr>self = i, location = loc, ctx = context, name = None, initialState = JUndefined,
      actions = [], getInitialState = None, shouldComponentCreate = None,
      componentWillCreate = None, pageWillLeave = False, windowWillUnload = False,
      preload = None,
      own = [(''View'', Function ''View''),
             (''prependRestfulBasename'', Function ''prependRestfulBasename''),
             (''fetch'', Function ''fetch''),
             (''fetchPreload'', Function ''fetchPreload''),
             (''subscriber'', Function ''subscriber''),
             (''handleInputChange'', Function ''handleInputChange''),
             (''location'', Data), (''context'', Data), (''handlers'', Data)],
      proto = [(''combineHandlers'', Function ''combineHandlers''),
               (''prependBasename'', Function ''prependBasename''),
               (''prependPublicPath'', Function ''prependPublicPath''),
               (''redirect'', Function ''redirect''),
               (''init'', Function ''init''),
               (''bindStoreToView'', Function ''bindStoreToView''),
               (''destroy'', Function ''destroy''),
               (''render'', Function ''render'')],
      handlers = Map.empty, store = None, logger = None, unsubscribeList = None\<rparr>"

text \<open>\<^verbatim>\<open>this[key]\<close>: an own property first, an inherited member otherwise.\<close>

definition member_of :: "controller \<Rightarrow> string \<Rightarrow> member option" where
  "member_of this key =
     (case map_of (own this) key of Some m \<Rightarrow> Some m | None \<Rightarrow> map_of (proto this) key)"

definition combineHandlers :: "controller \<Rightarrow> (string \<times> member) list \<Rightarrow> string \<rightharpoonup> handler" where
  "combineHandlers this source =
     fold (\<lambda>(key, value) hs.
             case value of
               Function f \<Rightarrow>
                 if indexOf key ''handle'' = 0 then hs(key \<mapsto> Bound (self this) f)
                 else hs
             | Data \<Rightarrow> hs)
          source (handlers this)"

subsection \<open>Preloading\<close>

datatype preload_result = Threw error | ReturnedUndefined | Promised "error + unit"

text \<open>The test \<^verbatim>\<open>if (context.preload[name])\<close> on the name \<open>key\<close>: a text counts as
  present unless it is empty.\<close>

definition cached :: "world \<Rightarrow> string \<Rightarrow> bool" where
  "cached w key = (case preload_cache w key of None \<Rightarrow> False | Some content \<Rightarrow> content \<noteq> [])"

text \<open>The options of a preload fetch, \<^verbatim>\<open>{ json: false }\<close>.\<close>

definition preload_options :: fetch_options where
  "preload_options =
     \<lparr>opt_method = None, opt_credentials = None, opt_headers = [],
      opt_json = False, opt_timeout = None\<rparr>"

text \<open>
  The fetches of the entries that passed the test, in the order of the keys.  Each
  request is logged when it is made and each text is stored when it arrives; the entries
  have different names, so the order of arrival does not show in the result.  The error
  returned is the one \<^verbatim>\<open>Promise.all\<close> rejects with, taken to be the first in key order.
\<close>

fun fetch_entries ::
  "externals \<Rightarrow> context \<Rightarrow> (string \<times> string) list \<Rightarrow> world \<Rightarrow> error option \<times> world" where
  "fetch_entries E context [] w = (None, w)"
| "fetch_entries E context ((key, url0) # rest) w =
     (let url = (if \<not> ext_isAbsoluteUrl E url0
                 then prependPublicPath (ext_isAbsoluteUrl E) context url0 else url0);
          (r, w1) = fetch E context url preload_options w
      in case (case r of Inl e \<Rightarrow> Inl e | Inr f \<Rightarrow> toText f) of
           Inl e \<Rightarrow> (let (later, w2) = fetch_entries E context rest w1 in (Some e, w2))
         | Inr content \<Rightarrow>
             (let content' = (if indexOf url ''.css'' \<noteq> - 1 then replace_cr_runs content
                              else content);
                  w2 = w1\<lparr>preload_cache := (preload_cache w1)(key \<mapsto> content')\<rparr>
              in fetch_entries E context rest w2))"

text \<open>
  Two names for the statements about preloading: the URL that \<^verbatim>\<open>fetchPreload\<close> fetches
  for an entry (lines 228 to 232), and the text that
  \<^verbatim>\<open>fetch(url, options).then(_.toText)\<close> is fulfilled with, or its rejection.
\<close>

definition resolved_url :: "externals \<Rightarrow> context \<Rightarrow> string \<Rightarrow> string" where
  "resolved_url E cx url0 =
     (if ext_isAbsoluteUrl E url0 then url0
      else prependPublicPath (ext_isAbsoluteUrl E) cx url0)"

definition fetched_text :: "externals \<Rightarrow> context \<Rightarrow> string \<Rightarrow> world \<Rightarrow> error + string" where
  "fetched_text E cx url w =
     (case fst (fetch E cx url preload_options w) of Inl e \<Rightarrow> Inl e | Inr f \<Rightarrow> toText f)"

definition entries :: "(string \<times> 'a) list option \<Rightarrow> (string \<times> 'a) list" where
  "entries obj = (case obj of None \<Rightarrow> [] | Some kvs \<Rightarrow> kvs)"

definition fetchPreload ::
  "externals \<Rightarrow> controller \<Rightarrow> (string \<times> string) list option \<Rightarrow> world \<Rightarrow>
     preload_result \<times> world" where
  "fetchPreload E this arg w =
     (let preload' = (case arg of Some p \<Rightarrow> Some p | None \<Rightarrow> preload this)
      in case Object_keys preload' of
           Inl e \<Rightarrow> (Threw e, w)
         | Inr keys \<Rightarrow>
             if preload' = None \<or> length keys = 0 then (ReturnedUndefined, w)
             else (let pending = filter (\<lambda>(key, url). \<not> cached w key) (entries preload');
                       (failure, w') = fetch_entries E (ctx this) pending w
                   in (Promised (case failure of None \<Rightarrow> Inr () | Some e \<Rightarrow> Inl e), w')))"

subsection \<open>Initialisation\<close>

text \<open>Lines 270 to 276: the global is read and cleared when its type is not \<^verbatim>\<open>undefined\<close>.\<close>

definition take_snapshot :: "world \<Rightarrow> jsval \<times> world" where
  "take_snapshot w =
     (if INITIAL_STATE w \<noteq> JUndefined
      then (INITIAL_STATE w, w\<lparr>INITIAL_STATE := JUndefined\<rparr>)
      else (JUndefined, w))"

definition merged_initial_state :: "controller \<Rightarrow> jsval \<Rightarrow> jsval" where
  "merged_initial_state this globalInitialState =
     JObj (obj_set ''restfulApi'' (JStr (restfulApi (ctx this)))
          (obj_set ''publicPath'' (JStr (publicPath (ctx this)))
          (obj_set ''isServer'' (JBool (isServer (ctx this)))
          (obj_set ''isClient'' (JBool (isClient (ctx this)))
          (obj_set ''location'' (location_value (location this))
          (spread globalInitialState (spread (initialState this) [])))))))"

text \<open>
  The reduction over \<^verbatim>\<open>finalInitialState.api\<close>.  \<^verbatim>\<open>_.isAbsoluteUrl\<close> is a function of
  strings; an entry that is not a string makes the reduction throw.
\<close>

fun api_reduce ::
  "(string \<Rightarrow> bool) \<Rightarrow> context \<Rightarrow> (string \<times> jsval) list \<Rightarrow> (string \<times> jsval) list \<Rightarrow>
     error + (string \<times> jsval) list" where
  "api_reduce isAbsoluteUrl context [] result = Inr result"
| "api_reduce isAbsoluteUrl context ((key, v) # rest) result =
     (case v of
        JStr url \<Rightarrow>
          api_reduce isAbsoluteUrl context rest
            (obj_set key (JStr (prependRestfulBasename isAbsoluteUrl context url)) result)
      | _ \<Rightarrow> Inl TypeError)"

definition complete_api :: "externals \<Rightarrow> context \<Rightarrow> jsval \<Rightarrow> error + jsval" where
  "complete_api E context finalInitialState =
     (case get_prop finalInitialState ''api'' of
        Inl e \<Rightarrow> Inl e
      | Inr api \<Rightarrow>
          if truthy api then
            (case api_reduce (ext_isAbsoluteUrl E) context (own_enumerable api) [] of
               Inl e \<Rightarrow> Inl e
             | Inr result \<Rightarrow> Inr (set_prop finalInitialState ''api'' (JObj result)))
          else Inr finalInitialState)"

definition render :: "controller \<Rightarrow> world \<Rightarrow> error + view" where
  "render this w =
     (case store this of
        None \<Rightarrow> Inl TypeError
      | Some s \<Rightarrow>
          Inr \<lparr>view_key = raw (location this), view_state = store_state s,
               view_handlers = handlers this, view_actions = store_actions s,
               view_preload = preload_cache w\<rparr>)"

definition bindStoreToView ::
  "controller \<Rightarrow> world \<Rightarrow> (error + view option) \<times> controller \<times> world" where
  "bindStoreToView this w =
     (let w1 = w\<lparr>calls := calls w @ [''bindStoreToView'']\<rparr>
      in case store this of
           None \<Rightarrow> (Inl TypeError, this, w1)
         | Some s \<Rightarrow>
             (let bound =
                (if isClient (ctx this) then
                   this\<lparr>logger := Some (case name this of
                                           Some n \<Rightarrow> if n \<noteq> [] then n else pattern (location this)
                                         | None \<Rightarrow> pattern (location this)),
                        unsubscribeList :=
                          Some ([StoreSubscribe]
                                @ (if pageWillLeave this then [HistoryListenBefore] else [])
                                @ (if windowWillUnload this then [HistoryListenBeforeUnload] else [])),
                        own := obj_set ''unsubscribeList'' Data (obj_set ''logger'' Data (own this))\<rparr>
                 else this);
                 this' = bound\<lparr>own := obj_set ''ViewWrapper'' (Function ''ViewWrapper'') (own bound)\<rparr>
              in (case render this' w1 of Inl e \<Rightarrow> Inl e | Inr v \<Rightarrow> Inr (Some v), this', w1)))"

text \<open>
  Lines 277 to 314: the final initial state, the store and the handlers.  The result is
  the error that rejects \<^verbatim>\<open>init\<close>, or the store with the controller that holds it.
\<close>

definition init_store ::
  "externals \<Rightarrow> controller \<Rightarrow> jsval \<Rightarrow> world \<Rightarrow> (error + store \<times> controller) \<times> world" where
  "init_store E this globalInitialState w =
     (let finalInitialState = merged_initial_state this globalInitialState;
          (provided, w1) =
            (case getInitialState this of
               None \<Rightarrow> (Inr finalInitialState, w)
             | Some hook \<Rightarrow>
                 (hook finalInitialState, w\<lparr>calls := calls w @ [''getInitialState'']\<rparr>))
      in case provided of
           Inl e \<Rightarrow> (Inl e, w1)
         | Inr finalInitialState' \<Rightarrow>
             (case complete_api E (ctx this) finalInitialState' of
                Inl e \<Rightarrow> (Inl e, w1)
              | Inr finalInitialState'' \<Rightarrow>
                  (let finalActions = fold (\<lambda>(k, a). obj_set k a) (actions this) (ext_shareActions E);
                       s = createStore finalActions finalInitialState'';
                       this1 = this\<lparr>store := Some s, own := obj_set ''store'' Data (own this)\<rparr>;
                       this2 = this1\<lparr>handlers := combineHandlers this1 (own this1)\<rparr>
                   in (Inr (s, this2), w1))))"

text \<open>
  Lines 332 to 337: the hook \<^verbatim>\<open>shouldComponentCreate\<close>, when there is one, is awaited;
  the answer is whether \<^verbatim>\<open>init\<close> goes on, which it does unless the hook's result is
  \<^verbatim>\<open>false\<close> itself.
\<close>

definition should_create :: "controller \<Rightarrow> store \<Rightarrow> world \<Rightarrow> (error + bool) \<times> world" where
  "should_create this s w =
     (case shouldComponentCreate this of
        None \<Rightarrow> (Inr True, w)
      | Some hook \<Rightarrow>
          (case hook s of
             Inl e \<Rightarrow> Inl e
           | Inr result \<Rightarrow> Inr (result \<noteq> JBool False),
           w\<lparr>calls := calls w @ [''shouldComponentCreate'']\<rparr>))"

text \<open>
  Lines 340 to 342: the hook \<^verbatim>\<open>componentWillCreate\<close> is started.  Its promise is
  rejected, or fulfilled with the store as the hook's actions leave it.
\<close>

definition will_create :: "controller \<Rightarrow> store \<Rightarrow> world \<Rightarrow> error option \<times> controller \<times> world" where
  "will_create this s w =
     (case componentWillCreate this of
        None \<Rightarrow> (None, this, w)
      | Some hook \<Rightarrow>
          (case hook s of
             Inl e \<Rightarrow> (Some e, this, w\<lparr>calls := calls w @ [''componentWillCreate'']\<rparr>)
           | Inr s' \<Rightarrow>
               (None, this\<lparr>store := Some s'\<rparr>,
                w\<lparr>calls := calls w @ [''componentWillCreate'']\<rparr>)))"

text \<open>Lines 347 to 349: the resources of a controller that has a \<^verbatim>\<open>preload\<close> property.\<close>

definition preload_resources :: "externals \<Rightarrow> controller \<Rightarrow> world \<Rightarrow> preload_result \<times> world" where
  "preload_resources E this w =
     (case preload this of
        None \<Rightarrow> (ReturnedUndefined, w)
      | Some p \<Rightarrow> fetchPreload E this None (w\<lparr>calls := calls w @ [''fetchPreload'']\<rparr>))"

text \<open>
  Lines 351 to 353: what \<^verbatim>\<open>await Promise.all(promiseList)\<close> throws, if anything.  A throw
  of \<^verbatim>\<open>fetchPreload\<close> itself comes first; of two promises that both reject, the one
  started first is taken to reject first.
\<close>

definition await_all :: "error option \<Rightarrow> preload_result \<Rightarrow> error option" where
  "await_all created preloaded =
     (case preloaded of
        Threw e \<Rightarrow> Some e
      | ReturnedUndefined \<Rightarrow> created
      | Promised p \<Rightarrow>
          (case created of
             Some e \<Rightarrow> Some e
           | None \<Rightarrow> (case p of Inl e \<Rightarrow> Some e | Inr u \<Rightarrow> None)))"

text \<open>Lines 326 to 355, for a controller without hydration snapshot.\<close>

definition init_create ::
  "externals \<Rightarrow> controller \<Rightarrow> store \<Rightarrow> world \<Rightarrow> (error + view option) \<times> controller \<times> world" where
  "init_create E this s w =
     (let (should, w1) = should_create this s w
      in case should of
           Inl e \<Rightarrow> (Inl e, this, w1)
         | Inr go_on \<Rightarrow>
             if \<not> go_on then (Inr None, this, w1)
             else
               (let (created, this1, w2) = will_create this s w1;
                    (preloaded, w3) = preload_resources E this1 w2
                in case await_all created preloaded of
                     Some e \<Rightarrow> (Inl e, this1, w3)
                   | None \<Rightarrow> bindStoreToView this1 w3))"

text \<open>\<^verbatim>\<open>init\<close> from line 277 on, given the value of its local \<^verbatim>\<open>globalInitialState\<close>.\<close>

definition init_from ::
  "externals \<Rightarrow> controller \<Rightarrow> jsval \<Rightarrow> world \<Rightarrow> (error + view option) \<times> controller \<times> world" where
  "init_from E this globalInitialState w =
     (case init_store E this globalInitialState w of
        (Inl e, w1) \<Rightarrow> (Inl e, this, w1)
      | (Inr (s, this1), w1) \<Rightarrow>
          if truthy globalInitialState then bindStoreToView this1 w1
          else init_create E this1 s w1)"

text \<open>
  \<^verbatim>\<open>init\<close>: the settled result of its promise (\<open>Inr None\<close> is \<^verbatim>\<open>null\<close>), the controller
  and the world state it leaves.
\<close>

definition init ::
  "externals \<Rightarrow> controller \<Rightarrow> world \<Rightarrow> (error + view option) \<times> controller \<times> world" where
  "init E this w =
     (let (globalInitialState, w1) = take_snapshot w
      in init_from E this globalInitialState w1)"

section \<open>An example deployment\<close>

text \<open>
  A server-side context, a network whose stylesheet \<^verbatim>\<open>/static/empty.css\<close> is empty, and a
  page controller of a subclass with one handler written as a class field
  (\<^verbatim>\<open>handleSubmit\<close>), one written as a method (\<^verbatim>\<open>handleClick\<close>) and three resources to
  preload.  The theorems below are instantiated on them.
\<close>

definition example_context :: "context" where
  "example_context =
     \<lparr>isClient = False, isServer = True, cookie = ''sid=1'', locationOrigin = ''http://a.io'',
      basename = ''/app'', publicPath = ''/static'', restfulApi = ''http://api.a.io''\<rparr>"

definition example_externals :: externals where
  "example_externals =
     \<lparr>ext_isAbsoluteUrl = (\<lambda>u. prefix ''http'' u \<or> prefix ''//'' u),
      ext_fetch = (\<lambda>u r.
         \<lparr>elapsed = 5,
          outcome = Inr \<lparr>ok = True, status = 200, statusText = ''OK'',
                         body = (if u = ''http://a.io/static/empty.css'' then ''''
                                 else [CHR ''a'', CR, CR, CHR ''b'', CR])\<rparr>\<rparr>),
      ext_json = (\<lambda>s. Inr (JObj [])),
      ext_shareActions = [(''INDENTITY'', ''identity'')]\<rparr>"

definition example_world :: world where
  "example_world =
     \<lparr>INITIAL_STATE = JUndefined, preload_cache = Map.empty, requests = [], calls = []\<rparr>"

definition example_location :: location where
  "example_location = \<lparr>raw = ''/list?page=1'', pattern = ''/list'', params = []\<rparr>"

definition example_controller :: controller where
  "example_controller =
     (Controller 1 example_location example_context)
       \<lparr>initialState := JObj [(''count'', JNum 0), (''api'', JObj [(''list'', JStr ''/list'')])],
        preload := Some [(''main'', ''/main.css''), (''logo'', ''/logo.svg''),
                         (''empty'', ''/empty.css'')],
        own := own (Controller 1 example_location example_context)
                 @ [(''handleSubmit'', Function ''handleSubmit'')],
        proto := (''handleClick'', Function ''handleClick'')
                 # proto (Controller 1 example_location example_context)\<rparr>"

section \<open>Facts about the string operations\<close>

lemma starts_at_prefix: "starts_at pat s = prefix pat s"
  by (induction pat s rule: starts_at.induct) auto

lemma indexOf_ge_minus_one: "- 1 \<le> indexOf s pat"
  by (induction s) (auto simp: Let_def)

lemma indexOf_zero_iff: "indexOf s pat = 0 \<longleftrightarrow> prefix pat s"
proof (cases s)
  case Nil
  then show ?thesis by auto
next
  case (Cons c cs)
  have "- 1 \<le> indexOf cs pat" by (rule indexOf_ge_minus_one)
  then show ?thesis
    using Cons by (auto simp: Let_def starts_at_prefix)
qed

lemma replace_first_prefix: "prefix pat s \<Longrightarrow> replace_first s pat rep = rep @ drop (length pat) s"
  by (cases s) (auto simp: starts_at_prefix)

lemma replace_http_scheme:
  assumes "prefix ''http:'' u"
  shows "replace_first u ''http:'' '''' = drop 5 u"
proof -
  have "replace_first u ''http:'' '''' = '''' @ drop (length ''http:'') u"
    using assms by (rule replace_first_prefix)
  moreover have "length ''http:'' = 5" by simp
  ultimately show ?thesis by (simp only: append_Nil)
qed

lemma replace_cr_runs_filter: "replace_cr_runs s = filter (\<lambda>c. c \<noteq> CR) s"
proof (induction s rule: replace_cr_runs.induct)
  case 1
  then show ?case by simp
next
  case (2 c cs)
  have drop_runs: "filter (\<lambda>c. c \<noteq> CR) (dropWhile (\<lambda>d. d = CR) cs) = filter (\<lambda>c. c \<noteq> CR) cs"
    by (induction cs) auto
  from 2 show ?case by (simp add: drop_runs)
qed

section \<open>Resolution of RESTful URLs\<close>

text \<open>
  C1.  A URL that is not absolute and does not begin with \<^verbatim>\<open>/mock/\<close> is prefixed with
  \<^verbatim>\<open>context.restfulApi\<close>; a URL that is not absolute and begins with \<^verbatim>\<open>/mock/\<close> is
  prefixed with \<^verbatim>\<open>context.locationOrigin + context.basename\<close>; an absolute URL is
  returned as it is, except that on the client a leading \<^verbatim>\<open>http:\<close> is cut off (the five
  characters of the scheme are dropped).
\<close>

theorem prependRestfulBasename_rule:
  "(\<not> isAbsoluteUrl u \<and> \<not> prefix ''/mock/'' u \<longrightarrow>
      prependRestfulBasename isAbsoluteUrl cx u = restfulApi cx @ u) \<and>
   (\<not> isAbsoluteUrl u \<and> prefix ''/mock/'' u \<longrightarrow>
      prependRestfulBasename isAbsoluteUrl cx u = locationOrigin cx @ basename cx @ u) \<and>
   (isAbsoluteUrl u \<and> \<not> (isClient cx \<and> prefix ''http:'' u) \<longrightarrow>
      prependRestfulBasename isAbsoluteUrl cx u = u) \<and>
   (isAbsoluteUrl u \<and> isClient cx \<and> prefix ''http:'' u \<longrightarrow>
      prependRestfulBasename isAbsoluteUrl cx u = drop 5 u)"
  by (simp add: prependRestfulBasename_def indexOf_zero_iff replace_http_scheme)

theorem prependRestfulBasename_rule_witness:
  "prependRestfulBasename (\<lambda>u. prefix ''http'' u \<or> prefix ''//'' u)
       \<lparr>isClient = True, isServer = False, cookie = '''', locationOrigin = ''//a.io'',
        basename = ''/app'', publicPath = ''/static'', restfulApi = ''//api.a.io''\<rparr>
       ''/users'' = ''//api.a.io/users'' \<and>
   prependRestfulBasename (\<lambda>u. prefix ''http'' u \<or> prefix ''//'' u)
       \<lparr>isClient = True, isServer = False, cookie = '''', locationOrigin = ''//a.io'',
        basename = ''/app'', publicPath = ''/static'', restfulApi = ''//api.a.io''\<rparr>
       ''/mock/users'' = ''//a.io/app/mock/users'' \<and>
   prependRestfulBasename (\<lambda>u. prefix ''http'' u \<or> prefix ''//'' u)
       \<lparr>isClient = False, isServer = True, cookie = '''', locationOrigin = ''//a.io'',
        basename = ''/app'', publicPath = ''/static'', restfulApi = ''//api.a.io''\<rparr>
       ''http://b.io/x'' = ''http://b.io/x'' \<and>
   prependRestfulBasename (\<lambda>u. prefix ''http'' u \<or> prefix ''//'' u)
       \<lparr>isClient = True, isServer = False, cookie = '''', locationOrigin = ''//a.io'',
        basename = ''/app'', publicPath = ''/static'', restfulApi = ''//api.a.io''\<rparr>
       ''http://b.io/x'' = ''//b.io/x''"
  using
    prependRestfulBasename_rule [of "\<lambda>u. prefix ''http'' u \<or> prefix ''//'' u" "''/users''"
      "\<lparr>isClient = True, isServer = False, cookie = '''', locationOrigin = ''//a.io'',
        basename = ''/app'', publicPath = ''/static'', restfulApi = ''//api.a.io''\<rparr>"]
    prependRestfulBasename_rule [of "\<lambda>u. prefix ''http'' u \<or> prefix ''//'' u" "''/mock/users''"
      "\<lparr>isClient = True, isServer = False, cookie = '''', locationOrigin = ''//a.io'',
        basename = ''/app'', publicPath = ''/static'', restfulApi = ''//api.a.io''\<rparr>"]
    prependRestfulBasename_rule [of "\<lambda>u. prefix ''http'' u \<or> prefix ''//'' u" "''http://b.io/x''"
      "\<lparr>isClient = False, isServer = True, cookie = '''', locationOrigin = ''//a.io'',
        basename = ''/app'', publicPath = ''/static'', restfulApi = ''//api.a.io''\<rparr>"]
    prependRestfulBasename_rule [of "\<lambda>u. prefix ''http'' u \<or> prefix ''//'' u" "''http://b.io/x''"
      "\<lparr>isClient = True, isServer = False, cookie = '''', locationOrigin = ''//a.io'',
        basename = ''/app'', publicPath = ''/static'', restfulApi = ''//api.a.io''\<rparr>"]
  by simp


section \<open>Facts about decimal numerals and \<^verbatim>\<open>parseInt\<close>\<close>

















section \<open>Port normalisation\<close>






section \<open>The patched global fetch\<close>

text \<open>
  C9.  The patched global \<^verbatim>\<open>fetch\<close> hands a URL that begins with \<^verbatim>\<open>/\<close> to the
  underlying fetch as \<^verbatim>\<open>http://localhost:<port>\<close> followed by the URL, and hands every
  other URL over as it is, with the options untouched.  An absolute URL begins with its
  scheme, not with \<^verbatim>\<open>/\<close>, so it is among the latter.
\<close>

theorem global_fetch_rewrites:
  "(prefix ''/'' url \<longrightarrow>
      global_fetch port node_fetch url options =
        node_fetch (''http://localhost:'' @ toString port @ url) options) \<and>
   (\<not> prefix ''/'' url \<longrightarrow> global_fetch port node_fetch url options = node_fetch url options)"
  by (simp add: global_fetch_def indexOf_zero_iff)

theorem global_fetch_rewrites_witness:
  "global_fetch (listening_port (JStr ''8080'') JUndefined) (\<lambda>url options. (url, options))
       ''/api/list'' ''GET'' = (''http://localhost:8080/api/list'', ''GET'') \<and>
   global_fetch (listening_port (JStr ''8080'') JUndefined) (\<lambda>url options. (url, options))
       ''https://b.io/api/list'' ''GET'' = (''https://b.io/api/list'', ''GET'')"
  using
    global_fetch_rewrites [of "''/api/list''" "listening_port (JStr ''8080'') JUndefined"
      "\<lambda>url options. (url, options)" "''GET''"]
    global_fetch_rewrites [of "''https://b.io/api/list''" "listening_port (JStr ''8080'') JUndefined"
      "\<lambda>url options. (url, options)" "''GET''"]
  by (simp add: listening_port_def js_or_def normalizePort_def parseInt10_def is_whitespace_def
      is_sign_def is_digit_def digits_value_def digit_value_def Let_def number_toString_def
      decimal.simps digit_char_def)


section \<open>Hot reloading of the server bundle\<close>



section \<open>Preloading without a specification\<close>




section \<open>Facts about fetching\<close>

lemma indexOf_found_iff: "indexOf s pat \<noteq> - 1 \<longleftrightarrow> sublist pat s"
proof (induction s)
  case Nil
  then show ?case by simp
next
  case (Cons c cs)
  have bound: "- 1 \<le> indexOf cs pat" by (rule indexOf_ge_minus_one)
  show ?case
  proof (cases "prefix pat (c # cs)")
    case True
    then show ?thesis
      by (simp add: starts_at_prefix sublist_Cons_right)
  next
    case False
    have "indexOf (c # cs) pat \<noteq> - 1 \<longleftrightarrow> indexOf cs pat \<noteq> - 1"
      using False bound by (auto simp: starts_at_prefix Let_def)
    with Cons False show ?thesis
      by (simp add: sublist_Cons_right)
  qed
qed

lemma fetch_world:
  "snd (fetch E cx url opts w) =
     w\<lparr>requests := requests w @ [prependRestfulBasename (ext_isAbsoluteUrl E) cx url]\<rparr>"
  by (simp add: fetch_def Let_def split: option.splits)

lemma fetch_result_any_world: "fst (fetch E cx url opts w) = fst (fetch E cx url opts w')"
  by (simp add: fetch_def Let_def split: option.splits)

lemma fetch_entries_Cons:
  "fetch_entries E cx ((k, u) # rest) w =
     (let url = resolved_url E cx u;
          w1 = snd (fetch E cx url preload_options w)
      in case fetched_text E cx url w of
           Inl e \<Rightarrow> (Some e, snd (fetch_entries E cx rest w1))
         | Inr content \<Rightarrow>
             fetch_entries E cx rest
               (w1\<lparr>preload_cache := (preload_cache w1)
                  (k \<mapsto> if indexOf url ''.css'' \<noteq> - 1 then replace_cr_runs content
                         else content)\<rparr>))"
  by (simp add: Let_def resolved_url_def fetched_text_def split: prod.splits sum.splits)

lemma fetched_text_any_world: "fetched_text E cx url w = fetched_text E cx url w'"
  using fetch_result_any_world [of E cx url preload_options w w']
  by (simp add: fetched_text_def)

lemma fetch_entries_keeps_other:
  "key \<notin> fst ` set es \<Longrightarrow> preload_cache (snd (fetch_entries E cx es w)) key = preload_cache w key"
proof (induction es arbitrary: w)
  case Nil
  then show ?case by simp
next
  case (Cons entry es)
  obtain k u where entry: "entry = (k, u)" by (cases entry)
  from Cons.prems entry have k: "k \<noteq> key" and rest: "key \<notin> fst ` set es" by auto
  note IH = Cons.IH [OF rest]
  show ?case
  proof (cases "fetched_text E cx (resolved_url E cx u) w")
    case (Inl e)
    then show ?thesis
      unfolding entry by (simp add: fetch_entries_Cons Let_def IH fetch_world del: fetch_entries.simps)
  next
    case (Inr content)
    then show ?thesis
      unfolding entry using k
      by (auto simp: fetch_entries_Cons Let_def IH fetch_world simp del: fetch_entries.simps)
  qed
qed

lemma fetch_entries_stores:
  assumes "distinct (map fst es)" and "(key, url0) \<in> set es"
    and "\<And>w0. fetched_text E cx (resolved_url E cx url0) w0 = Inr content"
  shows "preload_cache (snd (fetch_entries E cx es w)) key =
           Some (if indexOf (resolved_url E cx url0) ''.css'' \<noteq> - 1
                 then replace_cr_runs content else content)"
  using assms(1,2)
proof (induction es arbitrary: w)
  case Nil
  then show ?case by simp
next
  case (Cons entry es)
  obtain k u where entry: "entry = (k, u)" by (cases entry)
  show ?case
  proof (cases "k = key")
    case True
    with Cons.prems entry have u: "u = url0" and rest: "key \<notin> fst ` set es"
      by (auto simp: rev_image_eqI)
    show ?thesis
      unfolding entry True u
      by (simp add: fetch_entries_Cons Let_def assms(3) fetch_entries_keeps_other [OF rest]
          del: fetch_entries.simps)
  next
    case False
    with Cons.prems entry have d: "distinct (map fst es)" and m: "(key, url0) \<in> set es"
      by auto
    note IH = Cons.IH [OF d m]
    show ?thesis
    proof (cases "fetched_text E cx (resolved_url E cx u) w")
      case (Inl e)
      then show ?thesis
        unfolding entry by (simp add: fetch_entries_Cons Let_def IH del: fetch_entries.simps)
    next
      case (Inr other)
      then show ?thesis
        unfolding entry by (simp add: fetch_entries_Cons Let_def IH del: fetch_entries.simps)
    qed
  qed
qed

lemma fetchPreload_all_cached:
  assumes "\<forall>(key, url) \<in> set spec. cached w key"
  shows "snd (fetchPreload E this (Some spec) w) = w"
proof -
  have "filter (\<lambda>(key, url). \<not> cached w key) spec = []"
    using assms by (auto simp: filter_empty_conv)
  then show ?thesis
    by (simp add: fetchPreload_def Object_keys_def entries_def Let_def)
qed

section \<open>Preloaded texts\<close>

text \<open>
  C6.  Take an entry of the preload specification that is fetched (its name has no text
  in \<^verbatim>\<open>context.preload\<close> yet) and whose fetch yields the text \<open>text\<close>, and let \<open>url\<close> be
  its resolved URL: the entry's URL when that is absolute, and the URL prefixed with origin
  and public path otherwise.  If \<open>url\<close> contains \<^verbatim>\<open>.css\<close>, the text stored under the
  entry's name is \<open>text\<close> without its carriage returns; otherwise it is \<open>text\<close> itself.
\<close>

theorem fetchPreload_cached_content:
  assumes spec: "(case arg of Some p \<Rightarrow> Some p | None \<Rightarrow> preload this) = Some spec"
    and names: "distinct (map fst spec)"
    and entry: "(key, url0) \<in> set spec"
    and fresh: "\<not> cached w key"
    and url: "url = (if ext_isAbsoluteUrl E url0 then url0
                     else prependPublicPath (ext_isAbsoluteUrl E) (ctx this) url0)"
    and fetched: "(case fst (fetch E (ctx this) url preload_options w) of
                     Inl e \<Rightarrow> Inl e | Inr f \<Rightarrow> toText f) = Inr text"
  shows "preload_cache (snd (fetchPreload E this arg w)) key =
           Some (if sublist ''.css'' url then filter (\<lambda>c. c \<noteq> CR) text else text)"
proof -
  let ?pending = "filter (\<lambda>(key, url). \<not> cached w key) spec"
  have d: "distinct (map fst ?pending)"
    using names by (rule distinct_map_filter)
  have m: "(key, url0) \<in> set ?pending"
    using entry fresh by simp
  have any: "fetched_text E (ctx this) (resolved_url E (ctx this) url0) w0 = Inr text" for w0
    using fetched url fetched_text_any_world [of E "ctx this" url w0 w]
    by (simp add: fetched_text_def resolved_url_def)
  have "preload_cache (snd (fetch_entries E (ctx this) ?pending w)) key =
      Some (if indexOf (resolved_url E (ctx this) url0) ''.css'' \<noteq> - 1
            then replace_cr_runs text else text)"
    using d m any by (rule fetch_entries_stores)
  then have stored: "preload_cache (snd (fetch_entries E (ctx this) ?pending w)) key =
      Some (if indexOf url ''.css'' \<noteq> - 1 then replace_cr_runs text else text)"
    using url by (simp add: resolved_url_def)
  have nonempty: "spec \<noteq> []" using entry by auto
  have "snd (fetchPreload E this arg w) = snd (fetch_entries E (ctx this) ?pending w)"
    using spec nonempty
    by (simp add: fetchPreload_def Object_keys_def entries_def Let_def split: prod.splits)
  with stored show ?thesis
    by (simp add: indexOf_found_iff replace_cr_runs_filter)
qed

theorem fetchPreload_cached_content_witness:
  "preload_cache (snd (fetchPreload example_externals example_controller None example_world)) ''main''
     = Some ''ab'' \<and>
   preload_cache (snd (fetchPreload example_externals example_controller None example_world)) ''logo''
     = Some [CHR ''a'', CR, CR, CHR ''b'', CR]"
proof -
  have spec: "(case None of Some p \<Rightarrow> Some p | None \<Rightarrow> preload example_controller) =
      Some [(''main'', ''/main.css''), (''logo'', ''/logo.svg''), (''empty'', ''/empty.css'')]"
    by (simp add: example_controller_def)
  have names: "distinct (map fst [(''main'', ''/main.css''), (''logo'', ''/logo.svg''),
      (''empty'', ''/empty.css'')])"
    by simp
  have fresh: "\<not> cached example_world k" for k
    by (simp add: cached_def example_world_def)
  have cx: "ctx example_controller = example_context"
    by (simp add: example_controller_def Controller_def)
  have main_url: "''http://a.io/static/main.css'' =
      (if ext_isAbsoluteUrl example_externals ''/main.css'' then ''/main.css''
       else prependPublicPath (ext_isAbsoluteUrl example_externals) (ctx example_controller) ''/main.css'')"
    by (simp add: cx example_externals_def example_context_def prependPublicPath_def)
  have logo_url: "''http://a.io/static/logo.svg'' =
      (if ext_isAbsoluteUrl example_externals ''/logo.svg'' then ''/logo.svg''
       else prependPublicPath (ext_isAbsoluteUrl example_externals) (ctx example_controller) ''/logo.svg'')"
    by (simp add: cx example_externals_def example_context_def prependPublicPath_def)
  have fetched: "(case fst (fetch example_externals (ctx example_controller) u preload_options example_world) of
      Inl e \<Rightarrow> Inl e | Inr f \<Rightarrow> toText f) = Inr [CHR ''a'', CR, CR, CHR ''b'', CR]"
    if "u = ''http://a.io/static/main.css'' \<or> u = ''http://a.io/static/logo.svg''" for u
    using that
    by (auto simp: cx fetch_def Let_def preload_options_def toText_def example_externals_def
        example_context_def prependRestfulBasename_def)
  have css: "sublist ''.css'' ''http://a.io/static/main.css''"
    by (simp add: sublist_code)
  have svg: "\<not> sublist ''.css'' ''http://a.io/static/logo.svg''"
    by (simp add: sublist_code)
  have cr: "filter (\<lambda>c. c \<noteq> CR) [CHR ''a'', CR, CR, CHR ''b'', CR] = ''ab''"
    by (simp add: CR_def)
  have "preload_cache (snd (fetchPreload example_externals example_controller None example_world))
      ''main'' =
      Some (if sublist ''.css'' ''http://a.io/static/main.css''
            then filter (\<lambda>c. c \<noteq> CR) [CHR ''a'', CR, CR, CHR ''b'', CR]
            else [CHR ''a'', CR, CR, CHR ''b'', CR])"
    by (rule fetchPreload_cached_content [OF spec names _ fresh main_url fetched]) simp_all
  then have main: "preload_cache
      (snd (fetchPreload example_externals example_controller None example_world)) ''main'' =
      Some ''ab''"
    by (simp only: css cr if_True)
  have "preload_cache (snd (fetchPreload example_externals example_controller None example_world))
      ''logo'' =
      Some (if sublist ''.css'' ''http://a.io/static/logo.svg''
            then filter (\<lambda>c. c \<noteq> CR) [CHR ''a'', CR, CR, CHR ''b'', CR]
            else [CHR ''a'', CR, CR, CHR ''b'', CR])"
    by (rule fetchPreload_cached_content [OF spec names _ fresh logo_url fetched]) simp_all
  then have logo: "preload_cache
      (snd (fetchPreload example_externals example_controller None example_world)) ''logo'' =
      Some [CHR ''a'', CR, CR, CHR ''b'', CR]"
    by (simp only: svg if_False)
  from main logo show ?thesis by (rule conjI)
qed

section \<open>Preloading twice\<close>

text \<open>
  C4 (the code departs from the claim).  The controller preloads the one resource
  \<^verbatim>\<open>empty\<close>, a stylesheet whose text is empty.  The first call of \<^verbatim>\<open>fetchPreload\<close>
  fetches it and stores the empty text under its name; the second call, with the same
  specification, finds the name in \<^verbatim>\<open>context.preload\<close> but takes its empty text for
  absent and fetches the stylesheet again.
\<close>

theorem fetchPreload_refetches_empty_text:
  "fst (fetchPreload example_externals
          (example_controller\<lparr>preload := Some [(''empty'', ''/empty.css'')]\<rparr>) None example_world)
     = Promised (Inr ()) \<and>
   preload_cache (snd (fetchPreload example_externals
          (example_controller\<lparr>preload := Some [(''empty'', ''/empty.css'')]\<rparr>) None example_world))
       ''empty'' = Some '''' \<and>
   requests (snd (fetchPreload example_externals
          (example_controller\<lparr>preload := Some [(''empty'', ''/empty.css'')]\<rparr>) None example_world))
     = [''http://a.io/static/empty.css''] \<and>
   requests (snd (fetchPreload example_externals
          (example_controller\<lparr>preload := Some [(''empty'', ''/empty.css'')]\<rparr>) None
          (snd (fetchPreload example_externals
             (example_controller\<lparr>preload := Some [(''empty'', ''/empty.css'')]\<rparr>) None example_world))))
     = [''http://a.io/static/empty.css'', ''http://a.io/static/empty.css'']"
  by (simp add: fetchPreload_def Object_keys_def entries_def cached_def Let_def fetch_def
      preload_options_def toText_def example_externals_def example_context_def
      example_controller_def Controller_def example_world_def prependRestfulBasename_def
      prependPublicPath_def)


section \<open>Facts about initialisation\<close>

lemma take_snapshot_eq: "take_snapshot w = (INITIAL_STATE w, w\<lparr>INITIAL_STATE := JUndefined\<rparr>)"
  by (simp add: take_snapshot_def)


lemma init_eq_init_from:
  "init E this w = init_from E this (INITIAL_STATE w) (w\<lparr>INITIAL_STATE := JUndefined\<rparr>)"
  by (simp add: init_def take_snapshot_eq)




lemma bindStoreToView_handlers: "handlers (fst (snd (bindStoreToView this w))) = handlers this"
  by (simp add: bindStoreToView_def Let_def split: option.splits)




lemma will_create_result:
  "handlers (fst (snd (will_create this s w))) = handlers this"
  "preload (fst (snd (will_create this s w))) = preload this"
  "INITIAL_STATE (snd (snd (will_create this s w))) = INITIAL_STATE w"
  by (simp_all add: will_create_def split: option.splits sum.splits)



lemma init_create_handlers:
  "handlers (fst (snd (init_create E this s w))) = handlers this"
  by (simp add: init_create_def Let_def case_prod_beta will_create_result
      bindStoreToView_handlers split: sum.splits option.splits)


lemma init_store_Inr:
  assumes "init_store E this g w = (Inr (s, this1), w1)"
  obtains final where
    "s = createStore (fold (\<lambda>(k, a). obj_set k a) (actions this) (ext_shareActions E)) final"
    "this1 = (this\<lparr>store := Some s, own := obj_set ''store'' Data (own this)\<rparr>)
               \<lparr>handlers := combineHandlers
                  (this\<lparr>store := Some s, own := obj_set ''store'' Data (own this)\<rparr>)
                  (obj_set ''store'' Data (own this))\<rparr>"
    "w1 = (if getInitialState this = None then w
           else w\<lparr>calls := calls w @ [''getInitialState'']\<rparr>)"
proof -
  let ?provided = "case getInitialState this of
                     None \<Rightarrow> Inr (merged_initial_state this g)
                   | Some hook \<Rightarrow> hook (merged_initial_state this g)"
  let ?w1 = "if getInitialState this = None then w
             else w\<lparr>calls := calls w @ [''getInitialState'']\<rparr>"
  have unfold: "init_store E this g w =
      (case ?provided of
         Inl e \<Rightarrow> (Inl e, ?w1)
       | Inr st \<Rightarrow>
           (case complete_api E (ctx this) st of
              Inl e \<Rightarrow> (Inl e, ?w1)
            | Inr st' \<Rightarrow>
                (let finalActions = fold (\<lambda>(k, a). obj_set k a) (actions this) (ext_shareActions E);
                     s = createStore finalActions st';
                     this1 = this\<lparr>store := Some s, own := obj_set ''store'' Data (own this)\<rparr>;
                     this2 = this1\<lparr>handlers := combineHandlers this1 (own this1)\<rparr>
                 in (Inr (s, this2), ?w1))))"
    by (cases "getInitialState this") (simp_all add: init_store_def Let_def)
  show thesis
  proof (cases ?provided)
    case (Inl e)
    with assms unfold show ?thesis by simp
  next
    case (Inr st)
    show ?thesis
    proof (cases "complete_api E (ctx this) st")
      case (Inl e)
      with assms unfold Inr show ?thesis by simp
    next
      case api: (Inr st')
      from assms unfold Inr api
      have "s = createStore (fold (\<lambda>(k, a). obj_set k a) (actions this) (ext_shareActions E)) st'"
        and "this1 = (this\<lparr>store := Some s, own := obj_set ''store'' Data (own this)\<rparr>)
               \<lparr>handlers := combineHandlers
                  (this\<lparr>store := Some s, own := obj_set ''store'' Data (own this)\<rparr>)
                  (obj_set ''store'' Data (own this))\<rparr>"
        and "w1 = ?w1"
        by (auto simp: Let_def)
      then show ?thesis by (rule that)
    qed
  qed
qed

lemma init_store_succeeds:
  assumes "getInitialState this = None"
    and "complete_api E (ctx this) (merged_initial_state this g) = Inr st"
  shows "\<exists>s this1. init_store E this g w = (Inr (s, this1), w)"
  using assms by (simp add: init_store_def Let_def)

lemma example_complete_api:
  "complete_api example_externals example_context
     (merged_initial_state
        (example_controller\<lparr>shouldComponentCreate := h\<rparr>) JUndefined) =
   Inr (JObj [(''count'', JNum 0), (''api'', JObj [(''list'', JStr ''http://api.a.io/list'')]),
              (''location'', location_value example_location),
              (''isClient'', JBool False), (''isServer'', JBool True),
              (''publicPath'', JStr ''/static''), (''restfulApi'', JStr ''http://api.a.io'')])"
  by (simp add: complete_api_def merged_initial_state_def spread_def example_controller_def
      Controller_def example_context_def example_externals_def prependRestfulBasename_def)

section \<open>Declining to create the component\<close>

text \<open>
  C2.  Let the global hold no hydration snapshot, let \<^verbatim>\<open>init\<close> get as far as its store
  (the initial-state provider, if any, resolves and the \<^verbatim>\<open>api\<close> entries are completed),
  and let the hook \<^verbatim>\<open>shouldComponentCreate\<close> resolve to \<^verbatim>\<open>false\<close>.  Then \<^verbatim>\<open>init\<close>
  resolves to \<^verbatim>\<open>null\<close>; the controller holds the store that was created, with the merged
  actions; and the only calls made were to the provider, if any, and to the hook: neither
  \<^verbatim>\<open>bindStoreToView\<close> nor a fetch took place.
\<close>

theorem init_not_created:
  assumes no_snapshot: "\<not> truthy (INITIAL_STATE w)"
    and stored: "init_store E this (INITIAL_STATE w) (w\<lparr>INITIAL_STATE := JUndefined\<rparr>)
                   = (Inr (s, this1), w1)"
    and hook: "shouldComponentCreate this = Some should"
    and declined: "should s = Inr (JBool False)"
  shows "fst (init E this w) = Inr None \<and>
         store (fst (snd (init E this w))) = Some s \<and>
         store_actions s = fold (\<lambda>(k, a). obj_set k a) (actions this) (ext_shareActions E) \<and>
         calls (snd (snd (init E this w))) =
           calls w @ (if getInitialState this = None then [] else [''getInitialState''])
             @ [''shouldComponentCreate''] \<and>
         requests (snd (snd (init E this w))) = requests w"
proof -
  from stored obtain final where
    s: "s = createStore (fold (\<lambda>(k, a). obj_set k a) (actions this) (ext_shareActions E)) final"
    and this1: "this1 = (this\<lparr>store := Some s, own := obj_set ''store'' Data (own this)\<rparr>)
               \<lparr>handlers := combineHandlers
                  (this\<lparr>store := Some s, own := obj_set ''store'' Data (own this)\<rparr>)
                  (obj_set ''store'' Data (own this))\<rparr>"
    and w1: "w1 = (if getInitialState this = None then w\<lparr>INITIAL_STATE := JUndefined\<rparr>
                   else w\<lparr>INITIAL_STATE := JUndefined,
                          calls := calls (w\<lparr>INITIAL_STATE := JUndefined\<rparr>) @ [''getInitialState'']\<rparr>)"
    by (rule init_store_Inr)
  have hook1: "shouldComponentCreate this1 = Some should"
    using hook this1 by simp
  have create: "init_create E this1 s w1 =
      (Inr None, this1, w1\<lparr>calls := calls w1 @ [''shouldComponentCreate'']\<rparr>)"
    by (simp add: init_create_def should_create_def hook1 declined)
  have "init E this w = (Inr None, this1, w1\<lparr>calls := calls w1 @ [''shouldComponentCreate'']\<rparr>)"
    using no_snapshot by (simp add: init_eq_init_from init_from_def stored create)
  then show ?thesis
    by (simp add: this1 w1 s createStore_def)
qed

theorem init_not_created_witness:
  "fst (init example_externals
          (example_controller\<lparr>shouldComponentCreate := Some (\<lambda>s. Inr (JBool False))\<rparr>)
          example_world) = Inr None \<and>
   store (fst (snd (init example_externals
          (example_controller\<lparr>shouldComponentCreate := Some (\<lambda>s. Inr (JBool False))\<rparr>)
          example_world))) \<noteq> None \<and>
   calls (snd (snd (init example_externals
          (example_controller\<lparr>shouldComponentCreate := Some (\<lambda>s. Inr (JBool False))\<rparr>)
          example_world))) = [''shouldComponentCreate'']"
proof -
  let ?c = "example_controller\<lparr>shouldComponentCreate := Some (\<lambda>s. Inr (JBool False))\<rparr>"
  have no_snapshot: "\<not> truthy (INITIAL_STATE example_world)"
    by (simp add: example_world_def)
  have provider: "getInitialState ?c = None" and cx: "ctx ?c = example_context"
    by (simp_all add: example_controller_def Controller_def)
  have "\<exists>s this1. init_store example_externals ?c (INITIAL_STATE example_world)
      (example_world\<lparr>INITIAL_STATE := JUndefined\<rparr>) =
      (Inr (s, this1), example_world\<lparr>INITIAL_STATE := JUndefined\<rparr>)"
    using provider
    by (rule init_store_succeeds) (simp add: cx example_world_def example_complete_api)
  then obtain s this1 where stored: "init_store example_externals ?c (INITIAL_STATE example_world)
      (example_world\<lparr>INITIAL_STATE := JUndefined\<rparr>) =
      (Inr (s, this1), example_world\<lparr>INITIAL_STATE := JUndefined\<rparr>)"
    by blast
  have hook: "shouldComponentCreate ?c = Some (\<lambda>s. Inr (JBool False))"
    by simp
  from init_not_created [OF no_snapshot stored hook refl] provider
  show ?thesis
    by (simp add: example_world_def)
qed

section \<open>Facts about objects\<close>

lemma map_of_obj_set: "map_of (obj_set k v kvs) k' = (if k' = k then Some v else map_of kvs k')"
  by (induction kvs) auto

lemma keys_obj_set: "fst ` set (obj_set k v kvs) = insert k (fst ` set kvs)"
  by (induction kvs) force+

lemma distinct_obj_set: "distinct (map fst kvs) \<Longrightarrow> distinct (map fst (obj_set k v kvs))"
  by (induction kvs) (auto simp: keys_obj_set)




section \<open>The hydration snapshot\<close>




section \<open>Facts about the handlers\<close>

lemma combineHandlers_lookup:
  assumes "distinct (map fst source)"
  shows "combineHandlers this source key =
           (case map_of source key of
              Some (Function f) \<Rightarrow>
                if prefix ''handle'' key then Some (Bound (self this) f) else handlers this key
            | _ \<Rightarrow> handlers this key)"
proof -
  let ?step = "\<lambda>(key, value) hs.
      case value of
        Function f \<Rightarrow> if indexOf key ''handle'' = 0 then hs(key \<mapsto> Bound (self this) f) else hs
      | Data \<Rightarrow> hs"
  have "fold ?step source hs key =
      (case map_of source key of
         Some (Function f) \<Rightarrow> if prefix ''handle'' key then Some (Bound (self this) f) else hs key
       | _ \<Rightarrow> hs key)" for hs
    using assms
  proof (induction source arbitrary: hs)
    case Nil
    then show ?case by simp
  next
    case (Cons entry source)
    obtain k m where entry: "entry = (k, m)" by (cases entry)
    from Cons.prems entry have fresh: "k \<notin> fst ` set source" and d: "distinct (map fst source)"
      by simp_all
    from fresh have absent: "map_of source k = None"
      by (simp add: map_of_eq_None_iff)
    show ?case
    proof (cases "key = k")
      case True
      then have k: "k = key" by simp
      from absent have absent': "map_of source key = None"
        unfolding k .
      show ?thesis
        unfolding entry k
        by (cases m) (simp_all add: Cons.IH [OF d] absent' indexOf_zero_iff)
    next
      case False
      then show ?thesis
        unfolding entry
        by (cases m) (simp_all add: Cons.IH [OF d] split: option.splits member.splits)
    qed
  qed
  then show ?thesis
    by (simp add: combineHandlers_def)
qed

lemma init_handlers:
  assumes "fst (init E this w) = Inr v"
  shows "\<exists>s. handlers (fst (snd (init E this w))) =
           combineHandlers (this\<lparr>store := Some s, own := obj_set ''store'' Data (own this)\<rparr>)
             (obj_set ''store'' Data (own this))"
proof (cases "init_store E this (INITIAL_STATE w) (w\<lparr>INITIAL_STATE := JUndefined\<rparr>)")
  case (Pair r w1)
  show ?thesis
  proof (cases r)
    case (Inl e)
    with Pair assms show ?thesis
      by (simp add: init_eq_init_from init_from_def)
  next
    case (Inr made)
    obtain s this1 where made: "made = (s, this1)" by (cases made)
    from Pair Inr made have stored:
      "init_store E this (INITIAL_STATE w) (w\<lparr>INITIAL_STATE := JUndefined\<rparr>) = (Inr (s, this1), w1)"
      by simp
    then obtain final where
      this1: "this1 = (this\<lparr>store := Some s, own := obj_set ''store'' Data (own this)\<rparr>)
               \<lparr>handlers := combineHandlers
                  (this\<lparr>store := Some s, own := obj_set ''store'' Data (own this)\<rparr>)
                  (obj_set ''store'' Data (own this))\<rparr>"
      by (rule init_store_Inr)
    have "handlers (fst (snd (init E this w))) = handlers this1"
      by (simp add: init_eq_init_from init_from_def stored bindStoreToView_handlers
          init_create_handlers)
    with this1 show ?thesis by auto
  qed
qed

lemma example_init_resolves:
  "\<not> isl (fst (init example_externals example_controller example_world))"
  by (simp add: init_def take_snapshot_def init_from_def init_store_def init_create_def
    should_create_def will_create_def preload_resources_def await_all_def
    bindStoreToView_def render_def fetchPreload_def Object_keys_def entries_def
    cached_def fetch_def preload_options_def toText_def Let_def
    complete_api_def merged_initial_state_def spread_def createStore_def
    example_controller_def Controller_def example_context_def example_externals_def
    example_world_def prependRestfulBasename_def prependPublicPath_def)

section \<open>The handlers\<close>

text \<open>
  C5 (as stated, refuted).  The example controller has the method \<^verbatim>\<open>handleClick\<close>,
  written in the body of its class: \<^verbatim>\<open>this.handleClick\<close> is a function and its name
  begins with \<^verbatim>\<open>handle\<close>.  Its \<^verbatim>\<open>init\<close> resolves, and \<^verbatim>\<open>this.handlers\<close> has no entry
  \<^verbatim>\<open>handleClick\<close> afterwards: \<^verbatim>\<open>Object.keys(this)\<close> lists the own properties of the
  instance only, and a method of the class is inherited.
\<close>

theorem handlers_method_counterexample:
  "member_of example_controller ''handleClick'' = Some (Function ''handleClick'') \<and>
   prefix ''handle'' ''handleClick'' \<and>
   \<not> isl (fst (init example_externals example_controller example_world)) \<and>
   handlers (fst (snd (init example_externals example_controller example_world))) ''handleClick''
     = None"
proof -
  have resolves: "\<not> isl (fst (init example_externals example_controller example_world))"
    by (rule example_init_resolves)
  then obtain v where "fst (init example_externals example_controller example_world) = Inr v"
    by (cases "fst (init example_externals example_controller example_world)") simp_all
  then obtain s where built:
    "handlers (fst (snd (init example_externals example_controller example_world))) =
       combineHandlers
         (example_controller\<lparr>store := Some s, own := obj_set ''store'' Data (own example_controller)\<rparr>)
         (obj_set ''store'' Data (own example_controller))"
    using init_handlers by blast
  have names: "distinct (map fst (obj_set ''store'' Data (own example_controller)))"
    by (simp add: example_controller_def Controller_def)
  have absent: "map_of (obj_set ''store'' Data (own example_controller)) ''handleClick'' = None"
    by (simp add: example_controller_def Controller_def)
  have "handlers (fst (snd (init example_externals example_controller example_world)))
      ''handleClick'' = handlers example_controller ''handleClick''"
    by (simp add: built combineHandlers_lookup [OF names] absent split: option.splits member.splits)
  moreover have "handlers example_controller ''handleClick'' = None"
    by (simp add: example_controller_def Controller_def)
  moreover have "member_of example_controller ''handleClick'' = Some (Function ''handleClick'')"
    by (simp add: member_of_def example_controller_def Controller_def)
  ultimately show ?thesis
    using resolves by simp
qed

text \<open>
  C5 (amended).  After an \<^verbatim>\<open>init\<close> that resolved, \<^verbatim>\<open>this.handlers\<close> has an entry for
  every own enumerable property of the instance (a class field, not a method of the
  class) whose name begins with \<^verbatim>\<open>handle\<close> and whose value is a function, and the entry
  is that function bound to the instance.  If \<^verbatim>\<open>this.handlers\<close> was empty before, as the
  constructor leaves it, every entry it has afterwards is such a bound function.
\<close>

theorem handlers_own_functions:
  assumes resolved: "fst (init E this w) = Inr v"
    and names: "distinct (map fst (own this))"
  shows "((key, Function f) \<in> set (own this) \<and> prefix ''handle'' key \<longrightarrow>
            handlers (fst (snd (init E this w))) key = Some (Bound (self this) f)) \<and>
         (handlers this = Map.empty \<and> handlers (fst (snd (init E this w))) key = Some h \<longrightarrow>
            (\<exists>g. h = Bound (self this) g \<and> (key, Function g) \<in> set (own this) \<and>
                 prefix ''handle'' key))"
proof -
  let ?own = "obj_set ''store'' Data (own this)"
  from resolved obtain s where built:
    "handlers (fst (snd (init E this w))) =
       combineHandlers (this\<lparr>store := Some s, own := ?own\<rparr>) ?own"
    using init_handlers by blast
  have d: "distinct (map fst ?own)"
    using names by (rule distinct_obj_set)
  have look: "handlers (fst (snd (init E this w))) key =
      (case map_of ?own key of
         Some (Function g) \<Rightarrow>
           if prefix ''handle'' key then Some (Bound (self this) g) else handlers this key
       | _ \<Rightarrow> handlers this key)"
    by (simp add: built combineHandlers_lookup [OF d] split: option.splits member.splits)
  have own_fun: "map_of ?own key = Some (Function g) \<longleftrightarrow> (key, Function g) \<in> set (own this)"
    if "prefix ''handle'' key" for g
  proof -
    from that have "key \<noteq> ''store''" by auto
    then show ?thesis
      using names by (simp add: map_of_obj_set)
  qed
  show ?thesis
  proof (intro conjI impI)
    assume "(key, Function f) \<in> set (own this) \<and> prefix ''handle'' key"
    then show "handlers (fst (snd (init E this w))) key = Some (Bound (self this) f)"
      using own_fun [of f] by (simp add: look)
  next
    assume a: "handlers this = Map.empty \<and> handlers (fst (snd (init E this w))) key = Some h"
    then have "(case map_of ?own key of
         Some (Function g) \<Rightarrow> if prefix ''handle'' key then Some (Bound (self this) g) else None
       | _ \<Rightarrow> None) = Some h"
      using look by (auto split: option.splits member.splits)
    then obtain g where "map_of ?own key = Some (Function g)" "prefix ''handle'' key"
      "h = Bound (self this) g"
      by (auto split: option.splits member.splits if_splits)
    then show "\<exists>g. h = Bound (self this) g \<and> (key, Function g) \<in> set (own this) \<and>
        prefix ''handle'' key"
      using own_fun [of g] by auto
  qed
qed

theorem handlers_own_functions_witness:
  "handlers (fst (snd (init example_externals example_controller example_world))) ''handleSubmit''
     = Some (Bound 1 ''handleSubmit'') \<and>
   handlers (fst (snd (init example_externals example_controller example_world)))
     ''handleInputChange'' = Some (Bound 1 ''handleInputChange'') \<and>
   (''handleInputChange'', Function ''handleInputChange'') \<in> set (own example_controller)"
proof -
  have "\<not> isl (fst (init example_externals example_controller example_world))"
    by (rule example_init_resolves)
  then obtain v where resolved:
    "fst (init example_externals example_controller example_world) = Inr v"
    by (cases "fst (init example_externals example_controller example_world)") simp_all
  have names: "distinct (map fst (own example_controller))"
    by (simp add: example_controller_def Controller_def)
  have submit: "(''handleSubmit'', Function ''handleSubmit'') \<in> set (own example_controller)"
    and change: "(''handleInputChange'', Function ''handleInputChange'') \<in> set (own example_controller)"
    and empty: "handlers example_controller = Map.empty"
    and self: "self example_controller = 1"
    by (simp_all add: example_controller_def Controller_def)
  have entry: "handlers (fst (snd (init example_externals example_controller example_world)))
      ''handleInputChange'' = Some (Bound 1 ''handleInputChange'')"
    using handlers_own_functions [OF resolved names, of "''handleInputChange''" "''handleInputChange''"]
      change self by simp
  from handlers_own_functions [OF resolved names, of "''handleSubmit''" "''handleSubmit''"]
    handlers_own_functions [OF resolved names, of "''handleInputChange''" _
      "Bound 1 ''handleInputChange''"]
    submit change empty self entry
  show ?thesis
    by simp
qed

end
